theory Spec2Isabelle
  imports Main
begin

section \<open>The HTTP gateway (api.ts) and the authentication service (authService.ts)\<close>

text \<open>
  The two TypeScript modules are embedded as functions over an explicit browser state.
  \<^item> \<open>localStorage\<close> is a partial map from keys to strings (\<open>getItem\<close> of a missing key is
    \<open>null\<close>, modelled as \<open>None\<close>);
  \<^item> \<open>window.location.href\<close> is a string field;
  \<^item> every \<open>setTimeout\<close> delay that the gateway awaits is appended to \<open>timers\<close>;
  \<^item> every request handed to the transport is appended to \<open>dispatched\<close>, as it was sent;
  \<^item> every \<open>console.error\<close> line is appended to \<open>console\<close>.
  A rejected promise is \<open>Inl\<close>, a fulfilled one \<open>Inr\<close>. A promise that never settles
  (the transport gives no outcome) is \<open>None\<close>.
\<close>

subsection \<open>Data\<close>

type_synonym storage = "string \<rightharpoonup> string"

text \<open>A JSON object, its values kept as their text.\<close>

type_synonym json = "string \<rightharpoonup> string"

text \<open>
  \<open>RetryConfig\<close>: an \<open>AxiosRequestConfig\<close> with the optional \<open>retryCount\<close>. Of the headers
  only \<open>headers.Authorization\<close> is ever written by the code.
\<close>

record retry_config =
  url :: string
  http_method :: string
  params :: "(string \<times> string) list"
  req_data :: "(string \<times> string) list"
  authorization :: "string option"
  retryCount :: "nat option"

text \<open>
  A response. Its body is a JSON object, or \<open>null\<close> (\<open>None\<close>): reading a property of a
  \<open>null\<close> body, as a destructuring does, throws a \<open>TypeError\<close>.
\<close>

record axios_response =
  status :: nat
  data :: "json option"

text \<open>\<open>AxiosError\<close>: both \<open>config\<close> and \<open>response\<close> are optional in its type.\<close>

record axios_error =
  config :: "retry_config option"
  response :: "axios_response option"
  message :: string

record world =
  localStorage :: storage
  location_href :: string
  timers :: "nat list"
  dispatched :: "retry_config list"
  console :: "string list"

text \<open>What the transport reports for one dispatched request.\<close>

datatype outcome = Answered axios_response | NoAnswer string

text \<open>
  The writes that other code of the page performs on \<open>localStorage\<close> while a call is
  suspended in its backoff wait (the event loop runs them in between).
\<close>

datatype storage_op = SetItem string string | RemoveItem string

fun apply_op :: "storage \<Rightarrow> storage_op \<Rightarrow> storage" where
  "apply_op s (SetItem k v) = s(k \<mapsto> v)"
| "apply_op s (RemoveItem k) = s(k := None)"

type_synonym script = "(outcome \<times> storage_op list) list"

subsection \<open>JavaScript truthiness and string conversion\<close>

text \<open>A string-or-null value is truthy when it is a non-empty string.\<close>

fun truthy :: "string option \<Rightarrow> bool" where
  "truthy None = False"
| "truthy (Some s) = (s \<noteq> [])"

text \<open>\<open>a || b\<close> on optional strings.\<close>

definition js_or :: "string option \<Rightarrow> string option \<Rightarrow> string option" where
  "js_or a b = (if truthy a then a else b)"

text \<open>\<open>localStorage.setItem\<close> stores \<open>String(value)\<close>; \<open>undefined\<close> becomes its name.\<close>

fun js_String :: "string option \<Rightarrow> string" where
  "js_String None = ''undefined''"
| "js_String (Some s) = s"

fun decimal :: "nat \<Rightarrow> string" where
  "decimal n = (if n < 10 then [''0123456789'' ! n]
                else decimal (n div 10) @ [''0123456789'' ! (n mod 10)])"

declare decimal.simps [simp del]

subsection \<open>api.ts\<close>

definition MAX_RETRIES :: nat where
  "MAX_RETRIES = 3"

definition RETRY_DELAY :: nat where
  "RETRY_DELAY = 1000"

text \<open>
  The request interceptor: reads the access token and, when it is truthy, sets the
  header. It has no other branch: the configuration is returned as it came otherwise.
\<close>

definition request_interceptor :: "retry_config \<Rightarrow> storage \<Rightarrow> retry_config" where
  "request_interceptor cfg ls =
     (let token = ls ''access_token'' in
      if truthy token then cfg\<lparr>authorization := Some (''Bearer '' @ the token)\<rparr>
      else cfg)"

text \<open>
  The library's part of a call (its \<open>settle\<close>): the promise is fulfilled when
  \<open>!response.status || validateStatus(response.status)\<close>, that is for status 0 and for
  a status in 200..299 (the default \<open>validateStatus\<close>, which \<open>axios.create\<close> is not told
  to replace); any other response, and no response, rejects it with an error that
  carries the configuration the request was sent with.
\<close>

definition settle :: "retry_config \<Rightarrow> outcome \<Rightarrow> axios_error + axios_response" where
  "settle cfg out =
     (case out of
        Answered r \<Rightarrow>
          if status r = 0 \<or> (200 \<le> status r \<and> status r < 300) then Inr r
          else Inl \<lparr>config = Some cfg, response = Some r,
                    message = ''Request failed with status code '' @ decimal (status r)\<rparr>
      | NoAnswer msg \<Rightarrow> Inl \<lparr>config = Some cfg, response = None, message = msg\<rparr>)"

text \<open>
  The response interceptor's error handler, up to the point where it either rejects or
  calls \<open>client(config)\<close> again. \<open>error.response?.status && ...\<close> is false for no
  response and for status 0.
\<close>

datatype decision = Reject axios_error | Resubmit retry_config

text \<open>\<open>config.retryCount || 0\<close>\<close>

definition retryCount_or_0 :: "retry_config \<Rightarrow> nat" where
  "retryCount_or_0 cfg = (case retryCount cfg of None \<Rightarrow> 0 | Some n \<Rightarrow> n)"

definition no_retry_status :: "axios_error \<Rightarrow> bool" where
  "no_retry_status err =
     (case response err of
        None \<Rightarrow> False
      | Some r \<Rightarrow> status r \<noteq> 0 \<and> status r < 500 \<and> status r \<noteq> 429)"

definition response_error_interceptor :: "axios_error \<Rightarrow> world \<Rightarrow> decision \<times> world" where
  "response_error_interceptor err w =
     (case config err of
        None \<Rightarrow> (Reject err, w)
      | Some cfg \<Rightarrow>
          if no_retry_status err then
            (if status (the (response err)) = 401
             then (Reject err,
                   w\<lparr>localStorage := (localStorage w)(''access_token'' := None),
                     location_href := ''/auth/login''\<rparr>)
             else (Reject err, w))
          else
            (let rc = retryCount_or_0 cfg in
             if rc < MAX_RETRIES then
               (let rc' = rc + 1;
                    delay = RETRY_DELAY * 2 ^ (rc' - 1)
                in (Resubmit (cfg\<lparr>retryCount := Some rc'\<rparr>),
                    w\<lparr>timers := timers w @ [delay]\<rparr>))
             else (Reject (err\<lparr>config := Some (cfg\<lparr>retryCount := Some rc\<rparr>)\<rparr>), w)))"

text \<open>
  \<open>client(config)\<close>: interceptor, dispatch, and on a failure the handler above; a
  resubmission is the recursive call, on the rest of the transport's outcomes, after the
  other writers' operations of that wait. The handler resubmits \<open>error.config\<close>, which is
  the configuration that the request interceptor returned for the failed attempt (with
  the header it wrote), its \<open>retryCount\<close> increased; the interceptor then runs on it
  again.
\<close>

fun client :: "retry_config \<Rightarrow> world \<Rightarrow> script \<Rightarrow> ((axios_error + axios_response) \<times> world) option" where
  "client cfg w [] = None"
| "client cfg w ((out, ops) # rest) =
     (let cfg1 = request_interceptor cfg (localStorage w);
          w1 = w\<lparr>dispatched := dispatched w @ [cfg1]\<rparr>
      in case settle cfg1 out of
           Inr resp \<Rightarrow> Some (Inr resp, w1)
         | Inl err \<Rightarrow>
             (case response_error_interceptor err w1 of
                (Reject e, w2) \<Rightarrow> Some (Inl e, w2)
              | (Resubmit cfg2, w2) \<Rightarrow>
                  client cfg2 (w2\<lparr>localStorage := foldl apply_op (localStorage w2) ops\<rparr>) rest))"

definition request :: "string \<Rightarrow> string \<Rightarrow> (string \<times> string) list \<Rightarrow> (string \<times> string) list \<Rightarrow> retry_config" where
  "request m u ps d =
     \<lparr>url = u, http_method = m, params = ps, req_data = d,
      authorization = None, retryCount = None\<rparr>"

text \<open>
  What a \<open>catch\<close> block can receive: an \<open>AxiosError\<close> (a rejection of \<open>client\<close>), another
  \<open>Error\<close> with its message, or a value that is no \<open>Error\<close>.
\<close>

datatype thrown = AxiosError axios_error | PlainError string | NonError

text \<open>
  For an \<open>AxiosError\<close>:
  \<open>response?.detail || response?.message || error.message || 'An error occurred'\<close>, where
  \<open>response\<close> is the body of the error's response (no property of a missing or \<open>null\<close>
  body is defined); for another \<open>Error\<close> its message; a fixed text otherwise.
\<close>

fun getErrorMessage :: "thrown \<Rightarrow> string" where
  "getErrorMessage (AxiosError err) =
     (let body = (case response err of
                    None \<Rightarrow> Map.empty
                  | Some r \<Rightarrow> (case data r of None \<Rightarrow> Map.empty | Some d \<Rightarrow> d)) in
      the (js_or (js_or (js_or (body ''detail'') (body ''message'')) (Some (message err)))
                 (Some ''An error occurred'')))"
| "getErrorMessage (PlainError msg) = msg"
| "getErrorMessage NonError = ''An unexpected error occurred''"


subsection \<open>authService.ts\<close>

text \<open>
  \<open>localStorage\<close> is taken to be available and not full: \<open>getItem\<close>, \<open>setItem\<close> and
  \<open>removeItem\<close> do not throw. In \<open>handleShopifyCallback\<close> and \<open>refreshToken\<close> the
  destructuring of the response body is inside \<open>try\<close>, so that a \<open>null\<close> body ends in the
  \<open>catch\<close> block.
\<close>

definition TOKEN_KEY :: string where
  "TOKEN_KEY = ''access_token''"

definition REFRESH_TOKEN_KEY :: string where
  "REFRESH_TOKEN_KEY = ''refresh_token''"

definition USER_KEY :: string where
  "USER_KEY = ''user_session''"

definition getToken :: "world \<Rightarrow> string option" where
  "getToken w = localStorage w TOKEN_KEY"

definition setToken :: "string \<Rightarrow> world \<Rightarrow> world" where
  "setToken token w = w\<lparr>localStorage := (localStorage w)(TOKEN_KEY \<mapsto> token)\<rparr>"

definition getRefreshToken :: "world \<Rightarrow> string option" where
  "getRefreshToken w = localStorage w REFRESH_TOKEN_KEY"

definition setRefreshToken :: "string \<Rightarrow> world \<Rightarrow> world" where
  "setRefreshToken token w = w\<lparr>localStorage := (localStorage w)(REFRESH_TOKEN_KEY \<mapsto> token)\<rparr>"

definition isAuthenticated :: "world \<Rightarrow> bool" where
  "isAuthenticated w = truthy (getToken w)"

definition clearAuth :: "world \<Rightarrow> world" where
  "clearAuth w =
     w\<lparr>localStorage :=
         (localStorage w)(TOKEN_KEY := None, REFRESH_TOKEN_KEY := None, USER_KEY := None)\<rparr>"


definition logout :: "world \<Rightarrow> script \<Rightarrow> ((string + unit) \<times> world) option" where
  "logout w sc =
     (case client (request ''post'' ''/auth/logout'' [] []) w sc of
        None \<Rightarrow> None
      | Some (Inr resp, w1) \<Rightarrow> Some (Inr (), clearAuth w1)
      | Some (Inl err, w1) \<Rightarrow>
          Some (Inr (),
                clearAuth (w1\<lparr>console := console w1 @
                                [''Error during logout: '' @
                                   getErrorMessage (AxiosError err)]\<rparr>)))"

definition refreshToken :: "world \<Rightarrow> script \<Rightarrow> (bool \<times> world) option" where
  "refreshToken w sc =
     (let refresh_token = getRefreshToken w in
      if \<not> truthy refresh_token then Some (False, w)
      else
        (case client (request ''post'' ''/auth/refresh'' []
                        [(''refresh_token'', the refresh_token)]) w sc of
           None \<Rightarrow> None
         | Some (Inr resp, w1) \<Rightarrow>
             (case data resp of
                None \<Rightarrow> Some (False, clearAuth w1)
              | Some body \<Rightarrow>
                  (let access_token = body ''access_token''
                   in Some (True, setToken (js_String access_token) w1)))
         | Some (Inl err, w1) \<Rightarrow> Some (False, clearAuth w1)))"

subsection \<open>Notions used to state the properties\<close>

text \<open>
  The failures that the handler answers with a resubmission (while retries remain):
  the outcomes that reject the promise and for which the handler's first test,
  \<open>no_retry_status\<close>, is false: no response, status 429, and status 500 and above.
\<close>

definition retryable :: "outcome \<Rightarrow> bool" where
  "retryable out =
     (case out of
        Answered r \<Rightarrow> status r \<noteq> 0 \<and> \<not> (status r < 500 \<and> status r \<noteq> 429)
      | NoAnswer msg \<Rightarrow> True)"

text \<open>The backoff delays of \<open>n\<close> consecutive retries, the first made at count \<open>rc\<close>.\<close>

fun delays :: "nat \<Rightarrow> nat \<Rightarrow> nat list" where
  "delays rc 0 = []"
| "delays rc (Suc n) = RETRY_DELAY * 2 ^ rc # delays (Suc rc) n"

text \<open>The response that an outcome's error carries, if any.\<close>

definition outcome_response :: "outcome \<Rightarrow> axios_response option" where
  "outcome_response out = (case out of Answered r \<Rightarrow> Some r | NoAnswer msg \<Rightarrow> None)"

subsection \<open>Concrete states and outcomes\<close>

text \<open>A signed-in browser: access token, refresh token and cached session are stored.\<close>

definition signed_in :: world where
  "signed_in =
     \<lparr>localStorage = [''access_token'' \<mapsto> ''T'', ''refresh_token'' \<mapsto> ''R'',
                      ''user_session'' \<mapsto> ''{}''],
      location_href = ''/dashboard'', timers = [], dispatched = [], console = []\<rparr>"

text \<open>A response with the given status and an empty body.\<close>

definition reply :: "nat \<Rightarrow> outcome" where
  "reply s = Answered \<lparr>status = s, data = Some Map.empty\<rparr>"

definition get_stores :: retry_config where
  "get_stores = request ''get'' ''/stores/'' [] []"

text \<open>A browser that holds an access token and nothing else.\<close>

definition access_only :: world where
  "access_only =
     \<lparr>localStorage = [''access_token'' \<mapsto> ''T''],
      location_href = ''/dashboard'', timers = [], dispatched = [], console = []\<rparr>"

text \<open>A browser whose access-token entry is the empty string.\<close>

definition empty_token :: world where
  "empty_token =
     \<lparr>localStorage = [''access_token'' \<mapsto> ''''],
      location_href = ''/dashboard'', timers = [], dispatched = [], console = []\<rparr>"

text \<open>An error with a 401 response and no request configuration.\<close>

definition unauthorized_without_config :: axios_error where
  "unauthorized_without_config =
     \<lparr>config = None, response = Some \<lparr>status = 401, data = Some Map.empty\<rparr>,
      message = ''Request failed with status code 401''\<rparr>"

text \<open>The error that \<open>settle\<close> builds for a 401 answer to \<open>get_stores\<close>.\<close>

definition unauthorized :: axios_error where
  "unauthorized =
     \<lparr>config = Some get_stores, response = Some \<lparr>status = 401, data = Some Map.empty\<rparr>,
      message = ''Request failed with status code 401''\<rparr>"


lemmas model_defs =
  request_def request_interceptor_def settle_def response_error_interceptor_def
  no_retry_status_def retryCount_or_0_def MAX_RETRIES_def RETRY_DELAY_def Let_def
  decimal.simps

lemmas example_defs = signed_in_def reply_def get_stores_def

section \<open>The gateway's retry loop\<close>

lemma retryable_settle:
  "retryable out \<longleftrightarrow> (\<exists>err. settle cfg out = Inl err \<and> \<not> no_retry_status err)"
  by (cases out) (auto simp: retryable_def settle_def no_retry_status_def)

lemma retryCount_or_0_interceptor [simp]:
  "retryCount_or_0 (request_interceptor cfg ls) = retryCount_or_0 cfg"
  by (simp add: retryCount_or_0_def request_interceptor_def Let_def)

lemma settle_retryable:
  assumes "retryable out"
  shows "\<exists>err. settle cfg out = Inl err \<and> config err = Some cfg \<and> \<not> no_retry_status err
           \<and> response err = outcome_response out"
  using assms
  by (cases out) (auto simp: retryable_def settle_def no_retry_status_def outcome_response_def)

lemma client_retry_step:
  assumes "retryable out" and "retryCount_or_0 cfg < MAX_RETRIES"
  shows "client cfg w ((out, ops) # rest) =
           client ((request_interceptor cfg (localStorage w))\<lparr>retryCount := Some (retryCount_or_0 cfg + 1)\<rparr>)
                  (w\<lparr>dispatched := dispatched w @ [request_interceptor cfg (localStorage w)],
                     timers := timers w @ [RETRY_DELAY * 2 ^ retryCount_or_0 cfg],
                     localStorage := foldl apply_op (localStorage w) ops\<rparr>) rest"
proof -
  obtain err where e: "settle (request_interceptor cfg (localStorage w)) out = Inl err"
      "config err = Some (request_interceptor cfg (localStorage w))" "\<not> no_retry_status err"
    using settle_retryable [OF assms(1)] by blast
  show ?thesis
    using e assms(2) by (simp add: Let_def response_error_interceptor_def)
qed

lemma client_exhausted:
  assumes "retryable out" and "\<not> retryCount_or_0 cfg < MAX_RETRIES"
  shows "\<exists>e. client cfg w ((out, ops) # rest) =
           Some (Inl e, w\<lparr>dispatched := dispatched w @ [request_interceptor cfg (localStorage w)]\<rparr>)
           \<and> response e = outcome_response out"
proof -
  obtain err where e: "settle (request_interceptor cfg (localStorage w)) out = Inl err"
      "config err = Some (request_interceptor cfg (localStorage w))" "\<not> no_retry_status err"
      "response err = outcome_response out"
    using settle_retryable [OF assms(1)] by blast
  show ?thesis
    using e assms(2) by (simp add: Let_def response_error_interceptor_def)
qed

lemma retry_prefix:
  assumes "\<forall>x \<in> set pre. retryable (fst x)"
    and "retryCount_or_0 cfg + length pre \<le> MAX_RETRIES"
  shows "\<exists>cfg' w'. client cfg w (pre @ rest) = client cfg' w' rest
           \<and> retryCount_or_0 cfg' = retryCount_or_0 cfg + length pre
           \<and> length (dispatched w') = length (dispatched w) + length pre
           \<and> timers w' = timers w @ delays (retryCount_or_0 cfg) (length pre)
           \<and> location_href w' = location_href w
           \<and> console w' = console w
           \<and> localStorage w' = foldl (foldl apply_op) (localStorage w) (map snd pre)"
  using assms
proof (induction pre arbitrary: cfg w)
  case Nil
  show ?case by (intro exI [of _ cfg] exI [of _ w]) simp
next
  case (Cons x pre)
  obtain out ops where x: "x = (out, ops)" by (cases x)
  let ?c1 = "request_interceptor cfg (localStorage w)"
  let ?cfg2 = "?c1\<lparr>retryCount := Some (retryCount_or_0 cfg + 1)\<rparr>"
  let ?w2 = "w\<lparr>dispatched := dispatched w @ [?c1],
                timers := timers w @ [RETRY_DELAY * 2 ^ retryCount_or_0 cfg],
                localStorage := foldl apply_op (localStorage w) ops\<rparr>"
  have r: "retryable out" using Cons.prems(1) x by simp
  have lt: "retryCount_or_0 cfg < MAX_RETRIES" using Cons.prems(2) by simp
  have step: "client cfg w ((x # pre) @ rest) = client ?cfg2 ?w2 (pre @ rest)"
    using client_retry_step [OF r lt] x by simp
  have rc2: "retryCount_or_0 ?cfg2 = retryCount_or_0 cfg + 1"
    by (simp add: retryCount_or_0_def)
  have "\<forall>x \<in> set pre. retryable (fst x)" using Cons.prems(1) by simp
  moreover have "retryCount_or_0 ?cfg2 + length pre \<le> MAX_RETRIES"
    using Cons.prems(2) rc2 by simp
  ultimately obtain cfg' w' where ih:
    "client ?cfg2 ?w2 (pre @ rest) = client cfg' w' rest"
    "retryCount_or_0 cfg' = retryCount_or_0 ?cfg2 + length pre"
    "length (dispatched w') = length (dispatched ?w2) + length pre"
    "timers w' = timers ?w2 @ delays (retryCount_or_0 ?cfg2) (length pre)"
    "location_href w' = location_href ?w2"
    "console w' = console ?w2"
    "localStorage w' = foldl (foldl apply_op) (localStorage ?w2) (map snd pre)"
    using Cons.IH [of ?cfg2 ?w2] by blast
  show ?case
    using step ih rc2 x by (intro exI [of _ cfg'] exI [of _ w']) simp
qed


lemma delays_take: "n \<le> 3 \<Longrightarrow> delays 0 n = take n [1000, 2000, 4000]"
proof -
  assume "n \<le> 3"
  then consider "n = 0" | "n = 1" | "n = 2" | "n = 3" by linarith
  then show ?thesis
    by cases (simp_all add: RETRY_DELAY_def numeral_2_eq_2 numeral_3_eq_3)
qed

lemma client_fulfilled:
  assumes "200 \<le> status r" and "status r < 300"
  shows "client cfg w ((Answered r, ops) # rest) =
           Some (Inr r, w\<lparr>dispatched := dispatched w @ [request_interceptor cfg (localStorage w)]\<rparr>)"
  using assms by (simp add: Let_def settle_def)

lemma client_fulfilled_status_0:
  assumes "status r = 0"
  shows "client cfg w ((Answered r, ops) # rest) =
           Some (Inr r, w\<lparr>dispatched := dispatched w @ [request_interceptor cfg (localStorage w)]\<rparr>)"
  using assms by (simp add: Let_def settle_def)

lemma client_401:
  assumes "status r = 401"
  shows "client cfg w ((Answered r, ops) # rest) =
           Some (Inl \<lparr>config = Some (request_interceptor cfg (localStorage w)), response = Some r,
                      message = ''Request failed with status code '' @ decimal (status r)\<rparr>,
                 w\<lparr>dispatched := dispatched w @ [request_interceptor cfg (localStorage w)],
                   localStorage := (localStorage w)(''access_token'' := None),
                   location_href := ''/auth/login''\<rparr>)"
  using assms
  by (simp add: Let_def settle_def response_error_interceptor_def no_retry_status_def)

lemma client_client_error:
  assumes "status r \<noteq> 0" and "status r < 500" and "status r \<noteq> 429" and "status r \<noteq> 401"
    and "\<not> (200 \<le> status r \<and> status r < 300)"
  shows "client cfg w ((Answered r, ops) # rest) =
           Some (Inl \<lparr>config = Some (request_interceptor cfg (localStorage w)), response = Some r,
                      message = ''Request failed with status code '' @ decimal (status r)\<rparr>,
                 w\<lparr>dispatched := dispatched w @ [request_interceptor cfg (localStorage w)]\<rparr>)"
  using assms
  by (simp add: Let_def settle_def response_error_interceptor_def no_retry_status_def)

lemma client_final:
  assumes "status r \<noteq> 0" and "status r < 500" and "status r \<noteq> 429"
  shows "\<exists>res w'. client cfg w ((Answered r, ops) # rest) = Some (res, w')
           \<and> length (dispatched w') = length (dispatched w) + 1
           \<and> timers w' = timers w"
proof (cases "200 \<le> status r \<and> status r < 300")
  case True
  then show ?thesis using client_fulfilled [of r cfg w ops rest] by simp
next
  case notok: False
  show ?thesis
  proof (cases "status r = 401")
    case True
    then show ?thesis using client_401 [of r cfg w ops rest] by simp
  next
    case False
    then show ?thesis using client_client_error [OF assms False notok, of cfg w ops rest] by simp
  qed
qed

lemma client_settles:
  "MAX_RETRIES - retryCount_or_0 cfg < length sc \<Longrightarrow> client cfg w sc \<noteq> None"
proof (induction sc arbitrary: cfg w)
  case Nil
  then show ?case by simp
next
  case (Cons x sc)
  obtain out ops where x: "x = (out, ops)" by (cases x)
  show ?case
  proof (cases "retryable out")
    case True
    show ?thesis
    proof (cases "retryCount_or_0 cfg < MAX_RETRIES")
      case lt: True
      let ?cfg2 = "(request_interceptor cfg (localStorage w))\<lparr>retryCount := Some (retryCount_or_0 cfg + 1)\<rparr>"
      have "retryCount_or_0 ?cfg2 = retryCount_or_0 cfg + 1"
        by (simp add: retryCount_or_0_def)
      then have "MAX_RETRIES - retryCount_or_0 ?cfg2 < length sc"
        using Cons.prems lt by simp
      then show ?thesis
        using Cons.IH [of ?cfg2] client_retry_step [OF True lt, of w ops sc] x by simp
    next
      case False
      then show ?thesis using client_exhausted [OF True False, of w ops sc] x by auto
    qed
  next
    case False
    then obtain r where r: "out = Answered r" "status r = 0 \<or> (status r < 500 \<and> status r \<noteq> 429)"
      by (cases out) (auto simp: retryable_def)
    show ?thesis
    proof (cases "status r = 0")
      case True
      then show ?thesis using client_fulfilled_status_0 [of r cfg w ops sc] r(1) x by simp
    next
      case False
      then have "status r < 500" "status r \<noteq> 429" using r(2) by simp_all
      from client_final [OF False this, of cfg w ops sc] show ?thesis using r(1) x by auto
    qed
  qed
qed

lemma listed_retryable:
  assumes "(\<exists>msg. out = NoAnswer msg) \<or> (\<exists>r. out = Answered r \<and> status r \<in> {500, 502, 503, 429})"
  shows "retryable out"
  using assms by (auto simp: retryable_def)

section \<open>The authentication service and the interceptor\<close>

lemma clearAuth_absent:
  "getToken (clearAuth w) = None \<and> getRefreshToken (clearAuth w) = None
   \<and> localStorage (clearAuth w) USER_KEY = None"
  by (simp add: clearAuth_def getToken_def getRefreshToken_def TOKEN_KEY_def
        REFRESH_TOKEN_KEY_def USER_KEY_def)

lemma interceptor_attaches_current_token:
  assumes "ls ''access_token'' = Some t" and "t \<noteq> []"
  shows "authorization (request_interceptor cfg ls) = Some (''Bearer '' @ t)"
  using assms by (simp add: request_interceptor_def)

lemma interceptor_keeps_header_without_token:
  assumes "\<not> truthy (ls ''access_token'')"
  shows "request_interceptor cfg ls = cfg"
  using assms by (simp add: request_interceptor_def)

lemma refresh_failure_clears:
  assumes "truthy (getRefreshToken w)"
    and "client (request ''post'' ''/auth/refresh'' [] [(''refresh_token'', the (getRefreshToken w))])
           w sc = Some (Inl err, w1)"
  shows "refreshToken w sc = Some (False, clearAuth w1)"
  using assms by (simp add: refreshToken_def)

text \<open>A fulfilled refresh request with a \<open>null\<close> body ends in the \<open>catch\<close> block.\<close>

lemma refresh_null_body_clears:
  assumes "truthy (getRefreshToken w)"
    and "client (request ''post'' ''/auth/refresh'' [] [(''refresh_token'', the (getRefreshToken w))])
           w sc = Some (Inr resp, w1)"
    and "data resp = None"
  shows "refreshToken w sc = Some (False, clearAuth w1)"
  using assms by (simp add: refreshToken_def)

text \<open>Three 503 answers and then a 200: the call succeeds after waits of 7000 ms in all.\<close>

lemma three_failures_then_success:
  "client get_stores signed_in [(reply 503, []), (reply 503, []), (reply 503, []), (reply 200, [])] \<noteq> None
   \<and> fst (the (client get_stores signed_in
        [(reply 503, []), (reply 503, []), (reply 503, []), (reply 200, [])])) =
       Inr \<lparr>status = 200, data = Some Map.empty\<rparr>
   \<and> sum_list (timers (snd (the (client get_stores signed_in
        [(reply 503, []), (reply 503, []), (reply 503, []), (reply 200, [])])))) = 7000"
  by (simp add: model_defs example_defs)

section \<open>Properties\<close>

text \<open>
  C1. A fresh request (\<open>retryCount\<close> not yet set, or 0) whose first \<open>N\<close> outcomes are
  failures with status 500, 502, 503 or 429, or with no response, and whose next outcome
  (when \<open>N < 4\<close>) is one the gateway does not retry, is dispatched exactly
  \<open>min (N + 1) 4\<close> times; the waits between the attempts are 1000, 2000 and 4000 ms, in this order; and
  when the first four outcomes all fail, the call is rejected with the fourth failure.
\<close>

theorem retry_attempts_and_delays:
  assumes fresh: "retryCount_or_0 cfg = 0"
    and fails: "\<forall>x \<in> set pre. (\<exists>msg. fst x = NoAnswer msg)
                  \<or> (\<exists>r. fst x = Answered r \<and> status r \<in> {500, 502, 503, 429})"
    and nxt: "length pre < 4 \<Longrightarrow>
                \<exists>r ops rest'. rest = (Answered r, ops) # rest'
                   \<and> status r \<noteq> 0 \<and> status r < 500 \<and> status r \<noteq> 429"
  shows "\<exists>res w'. client cfg w (pre @ rest) = Some (res, w')
           \<and> length (dispatched w') = length (dispatched w) + min (length pre + 1) 4
           \<and> timers w' = timers w @ take (length pre) [1000, 2000, 4000]
           \<and> (4 \<le> length pre \<longrightarrow>
                (\<exists>e. res = Inl e \<and> response e = outcome_response (fst (pre ! 3))))"
proof -
  note rc0 = fresh
  have allr: "\<forall>x \<in> set pre. retryable (fst x)"
    using fails listed_retryable by blast
  show ?thesis
  proof (cases "length pre < 4")
    case True
    then obtain r ops rest' where nx: "rest = (Answered r, ops) # rest'"
        "status r \<noteq> 0" "status r < 500" "status r \<noteq> 429"
      using nxt by blast
    have "retryCount_or_0 cfg + length pre \<le> MAX_RETRIES"
      using True rc0 by (simp add: MAX_RETRIES_def)
    then obtain cfg' w' where p: "client cfg w (pre @ rest) = client cfg' w' rest"
        "length (dispatched w') = length (dispatched w) + length pre"
        "timers w' = timers w @ delays (retryCount_or_0 cfg) (length pre)"
      using retry_prefix [OF allr, where cfg = cfg and rest = rest and w = w] by blast
    obtain res w'' where f: "client cfg' w' ((Answered r, ops) # rest') = Some (res, w'')"
        "length (dispatched w'') = length (dispatched w') + 1" "timers w'' = timers w'"
      using client_final [OF nx(2-4), of cfg' w' ops rest'] by blast
    have "delays 0 (length pre) = take (length pre) [1000, 2000, 4000]"
      using True by (intro delays_take) simp
    then show ?thesis
      using True p f nx(1) rc0 by (intro exI [of _ res] exI [of _ w'']) simp
  next
    case False
    let ?a = "take 3 pre"
    let ?b = "drop 3 pre"
    have len: "length ?a = 3" using False by simp
    have ne: "?b \<noteq> []" using False by simp
    then obtain x b' where b: "?b = x # b'" by (cases ?b) auto
    have x3: "x = pre ! 3"
      using b False by (metis hd_drop_conv_nth list.sel(1) not_less Suc_le_lessD eval_nat_numeral(2) semiring_norm(26,27))
    have split: "pre @ rest = ?a @ (x # (b' @ rest))"
      using b by (metis append_take_drop_id append_assoc append_Cons)
    have xr: "retryable (fst x)"
      using allr b by (metis in_set_dropD list.set_intros(1))
    have "\<forall>x \<in> set ?a. retryable (fst x)" using allr by (meson in_set_takeD)
    moreover have "retryCount_or_0 cfg + length ?a \<le> MAX_RETRIES"
      using len rc0 by (simp add: MAX_RETRIES_def)
    ultimately obtain cfg' w' where p:
        "client cfg w (?a @ (x # (b' @ rest))) = client cfg' w' (x # (b' @ rest))"
        "retryCount_or_0 cfg' = retryCount_or_0 cfg + length ?a"
        "length (dispatched w') = length (dispatched w) + length ?a"
        "timers w' = timers w @ delays (retryCount_or_0 cfg) (length ?a)"
      using retry_prefix [where pre = ?a and cfg = cfg and rest = "x # (b' @ rest)" and w = w] by blast
    have ex: "\<not> retryCount_or_0 cfg' < MAX_RETRIES"
      using p(2) len rc0 by (simp add: MAX_RETRIES_def)
    obtain e where e: "client cfg' w' ((fst x, snd x) # (b' @ rest)) =
          Some (Inl e, w'\<lparr>dispatched := dispatched w' @ [request_interceptor cfg' (localStorage w')]\<rparr>)"
        "response e = outcome_response (fst x)"
      using client_exhausted [OF xr ex, of w' "snd x" "b' @ rest"] by blast
    have d3: "delays 0 3 = [1000, 2000, 4000]" using delays_take [of 3] by simp
    let ?w'' = "w'\<lparr>dispatched := dispatched w' @ [request_interceptor cfg' (localStorage w')]\<rparr>"
    have run: "client cfg w (pre @ rest) = Some (Inl e, ?w'')"
      unfolding split p(1) using e(1) by simp
    have "length (dispatched ?w'') = length (dispatched w) + min (length pre + 1) 4"
      using False p(3) len by simp
    moreover have "timers ?w'' = timers w @ take (length pre) [1000, 2000, 4000]"
      using False p(4) rc0 len d3 by simp
    moreover have "response e = outcome_response (fst (pre ! 3))"
      using e(2) x3 by simp
    ultimately show ?thesis
      using run by blast
  qed
qed

theorem retry_attempts_and_delays_witness:
  "\<exists>res w'. client get_stores signed_in
               ([(reply 503, []), (reply 503, []), (reply 503, []), (reply 429, [])] @ []) =
               Some (res, w')
     \<and> length (dispatched w') = 4 \<and> timers w' = [1000, 2000, 4000]
     \<and> (\<exists>e. res = Inl e \<and> response e = Some \<lparr>status = 429, data = Some Map.empty\<rparr>)"
proof -
  let ?pre = "[(reply 503, []), (reply 503, []), (reply 503, []), (reply 429, [])]
                :: script"
  have h1: "retryCount_or_0 get_stores = 0"
    by (simp add: get_stores_def request_def retryCount_or_0_def)
  have h2: "\<forall>x \<in> set ?pre. (\<exists>msg. fst x = NoAnswer msg)
              \<or> (\<exists>r. fst x = Answered r \<and> status r \<in> {500, 502, 503, 429})"
    by (simp add: reply_def)
  have h3: "length ?pre < 4 \<Longrightarrow>
              \<exists>r ops rest'. ([] :: script) = (Answered r, ops) # rest'
                 \<and> status r \<noteq> 0 \<and> status r < 500 \<and> status r \<noteq> 429"
    by simp
  obtain res w' where run: "client get_stores signed_in (?pre @ []) = Some (res, w')"
      and n: "length (dispatched w') = length (dispatched signed_in) + min (length ?pre + 1) 4"
      and t: "timers w' = timers signed_in @ take (length ?pre) [1000, 2000, 4000]"
      and l: "4 \<le> length ?pre \<longrightarrow>
                (\<exists>e. res = Inl e \<and> response e = outcome_response (fst (?pre ! 3)))"
    using retry_attempts_and_delays [OF h1 h2 h3, of signed_in] by blast
  have "length (dispatched w') = 4" using n by (simp add: signed_in_def)
  moreover have "timers w' = [1000, 2000, 4000]" using t by (simp add: signed_in_def)
  moreover have "\<exists>e. res = Inl e \<and> response e = Some \<lparr>status = 429, data = Some Map.empty\<rparr>"
    using l by (simp add: outcome_response_def reply_def)
  ultimately show ?thesis using run by blast
qed

text \<open>
  C2, as stated, fails: a 401 is not retried and the redirect is set, but of the stored
  credential only the access token is removed. Here a 503 is retried and the retry is
  answered 401; afterwards the refresh token is still stored.
\<close>

theorem refresh_token_survives_401:
  "client get_stores signed_in [(reply 503, []), (reply 401, [])] \<noteq> None
   \<and> getToken (snd (the (client get_stores signed_in [(reply 503, []), (reply 401, [])]))) = None
   \<and> getRefreshToken (snd (the (client get_stores signed_in [(reply 503, []), (reply 401, [])]))) =
       Some ''R''"
  by (simp add: model_defs example_defs getToken_def getRefreshToken_def TOKEN_KEY_def
        REFRESH_TOKEN_KEY_def)

text \<open>
  C2, amended. A 401 answer is never retried, also when it arrives after earlier failures
  that were retried (\<open>pre\<close>; the count says that the attempt answered by the 401 is made
  at all): no request is dispatched after the one that the 401 answers (with \<open>pre\<close>
  empty, exactly one attempt), no further wait is started, and the call is rejected with
  the 401 error. By then the handler has removed the stored access token, so that
  \<open>getToken\<close> returns nothing, and has set the location to the login route; it has
  removed nothing else: every other entry of \<open>localStorage\<close>, the refresh token and the
  cached session among them, is as the other writers left it.
\<close>

theorem unauthorized_never_retried:
  assumes "status r = 401"
    and "\<forall>x \<in> set pre. retryable (fst x)"
    and "retryCount_or_0 cfg + length pre \<le> MAX_RETRIES"
  shows "\<exists>e w'. client cfg w (pre @ (Answered r, ops) # rest) = Some (Inl e, w')
           \<and> response e = Some r
           \<and> length (dispatched w') = length (dispatched w) + length pre + 1
           \<and> timers w' = timers w @ delays (retryCount_or_0 cfg) (length pre)
           \<and> getToken w' = None
           \<and> localStorage w' =
               (foldl (foldl apply_op) (localStorage w) (map snd pre))(''access_token'' := None)
           \<and> location_href w' = ''/auth/login''"
proof -
  obtain cfg' w1 where p: "client cfg w (pre @ (Answered r, ops) # rest) =
        client cfg' w1 ((Answered r, ops) # rest)"
      "length (dispatched w1) = length (dispatched w) + length pre"
      "timers w1 = timers w @ delays (retryCount_or_0 cfg) (length pre)"
      "localStorage w1 = foldl (foldl apply_op) (localStorage w) (map snd pre)"
    using retry_prefix [OF assms(2,3), where rest = "(Answered r, ops) # rest" and w = w]
    by blast
  show ?thesis
    unfolding p(1) client_401 [OF assms(1)]
    using p(2,3,4) by (simp add: getToken_def TOKEN_KEY_def)
qed

theorem unauthorized_never_retried_witness:
  "\<exists>e w'. client get_stores signed_in
             ([(reply 503, [])] @ (Answered \<lparr>status = 401, data = Some Map.empty\<rparr>, []) # [(reply 200, [])]) =
             Some (Inl e, w')
     \<and> response e = Some \<lparr>status = 401, data = Some Map.empty\<rparr>
     \<and> length (dispatched w') = 2
     \<and> timers w' = [1000]
     \<and> getToken w' = None
     \<and> getRefreshToken w' = Some ''R''
     \<and> localStorage w' ''user_session'' = Some ''{}''
     \<and> location_href w' = ''/auth/login''"
proof -
  let ?r = "\<lparr>status = 401, data = Some Map.empty\<rparr>"
  let ?pre = "[(reply 503, [])] :: script"
  have h1: "status ?r = 401" by simp
  have h2: "\<forall>x \<in> set ?pre. retryable (fst x)" by (simp add: reply_def retryable_def)
  have h3: "retryCount_or_0 get_stores + length ?pre \<le> MAX_RETRIES"
    by (simp add: get_stores_def request_def retryCount_or_0_def MAX_RETRIES_def)
  have rc: "retryCount_or_0 get_stores = 0"
    by (simp add: get_stores_def request_def retryCount_or_0_def)
  obtain e w' where run: "client get_stores signed_in (?pre @ (Answered ?r, []) # [(reply 200, [])]) =
        Some (Inl e, w')"
      and f: "response e = Some ?r"
         "length (dispatched w') = length (dispatched signed_in) + length ?pre + 1"
         "timers w' = timers signed_in @ delays (retryCount_or_0 get_stores) (length ?pre)"
         "getToken w' = None"
         "localStorage w' =
            (foldl (foldl apply_op) (localStorage signed_in) (map snd ?pre))(''access_token'' := None)"
         "location_href w' = ''/auth/login''"
    using unauthorized_never_retried [OF h1 h2 h3, of signed_in "[]" "[(reply 200, [])]"] by blast
  have "length (dispatched w') = 2" using f(2) by (simp add: signed_in_def)
  moreover have "timers w' = [1000]" using f(3) rc by (simp add: signed_in_def RETRY_DELAY_def)
  moreover have "getRefreshToken w' = Some ''R''"
    using f(5) by (simp add: getRefreshToken_def REFRESH_TOKEN_KEY_def signed_in_def)
  moreover have "localStorage w' ''user_session'' = Some ''{}''"
    using f(5) by (simp add: signed_in_def)
  ultimately show ?thesis using run f(1,4,6) by blast
qed

text \<open>
  C3, as stated, fails: after the gateway's handling of a 401 the access token is gone
  while the refresh token and the cached session are still stored.
\<close>

theorem partial_clear_on_401:
  "client get_stores signed_in [(reply 401, [])] \<noteq> None
   \<and> localStorage signed_in ''access_token'' = Some ''T''
   \<and> localStorage (snd (the (client get_stores signed_in [(reply 401, [])]))) ''access_token'' = None
   \<and> localStorage (snd (the (client get_stores signed_in [(reply 401, [])]))) ''refresh_token'' = Some ''R''
   \<and> localStorage (snd (the (client get_stores signed_in [(reply 401, [])]))) ''user_session'' = Some ''{}''"
  by (simp add: model_defs example_defs)

text \<open>
  C3, amended. \<open>clearAuth\<close>, the clear that \<open>logout\<close> and a failed refresh request use,
  removes the access token, the refresh token and the cached session together and
  touches no other entry. The gateway's clear on a 401 removes the access token only:
  every other entry, the refresh token and the cached session among them, stays as it
  was.
\<close>

theorem clears_of_the_session:
  "localStorage (clearAuth w) =
     (\<lambda>k. if k \<in> {''access_token'', ''refresh_token'', ''user_session''} then None
          else localStorage w k)
   \<and> (config err = Some cfg \<and> response err = Some r \<and> status r = 401 \<longrightarrow>
        localStorage (snd (response_error_interceptor err w)) =
          (localStorage w)(''access_token'' := None))"
  by (auto simp: clearAuth_def TOKEN_KEY_def REFRESH_TOKEN_KEY_def USER_KEY_def
        response_error_interceptor_def no_retry_status_def)

theorem clears_of_the_session_witness:
  "localStorage (clearAuth signed_in) ''access_token'' = None
   \<and> localStorage (clearAuth signed_in) ''refresh_token'' = None
   \<and> localStorage (clearAuth signed_in) ''user_session'' = None
   \<and> localStorage (snd (response_error_interceptor unauthorized signed_in)) ''access_token'' = None
   \<and> localStorage (snd (response_error_interceptor unauthorized signed_in)) ''refresh_token'' =
       Some ''R''"
proof -
  let ?r = "\<lparr>status = 401, data = Some Map.empty\<rparr>"
  have h: "config unauthorized = Some get_stores \<and> response unauthorized = Some ?r
           \<and> status ?r = 401"
    by (simp add: unauthorized_def)
  have a: "localStorage (clearAuth signed_in) =
             (\<lambda>k. if k \<in> {''access_token'', ''refresh_token'', ''user_session''} then None
                  else localStorage signed_in k)"
    and b: "localStorage (snd (response_error_interceptor unauthorized signed_in)) =
             (localStorage signed_in)(''access_token'' := None)"
    using clears_of_the_session [of signed_in unauthorized get_stores ?r] h by blast+
  show ?thesis
    unfolding a b by (simp add: signed_in_def)
qed

text \<open>
  C4. A request answered with status 400, 403, 404 or 422 is dispatched once and not
  again; the call is rejected with the error of that response; \<open>localStorage\<close> (access
  token, refresh token, cached session and every other entry) is what it was before the
  call, and neither a wait nor a redirect happens.
\<close>

theorem client_error_single_attempt:
  assumes "status r \<in> {400, 403, 404, 422}"
  shows "\<exists>e w'. client cfg w ((Answered r, ops) # rest) = Some (Inl e, w')
           \<and> response e = Some r
           \<and> dispatched w' = dispatched w @ [request_interceptor cfg (localStorage w)]
           \<and> localStorage w' = localStorage w
           \<and> location_href w' = location_href w
           \<and> timers w' = timers w"
proof -
  have "status r \<noteq> 0" "status r < 500" "status r \<noteq> 429" "status r \<noteq> 401"
      "\<not> (200 \<le> status r \<and> status r < 300)"
    using assms by auto
  from client_client_error [OF this, of cfg w ops rest] show ?thesis by simp
qed

theorem client_error_single_attempt_witness:
  "\<exists>e w'. client get_stores signed_in ((Answered \<lparr>status = 404, data = Some Map.empty\<rparr>, []) # [(reply 200, [])]) =
             Some (Inl e, w')
     \<and> response e = Some \<lparr>status = 404, data = Some Map.empty\<rparr>
     \<and> length (dispatched w') = 1
     \<and> localStorage w' = localStorage signed_in
     \<and> location_href w' = ''/dashboard''
     \<and> timers w' = []"
proof -
  let ?r = "\<lparr>status = 404, data = Some Map.empty\<rparr>"
  have h: "status ?r \<in> {400, 403, 404, 422}" by simp
  obtain e w' where run: "client get_stores signed_in ((Answered ?r, []) # [(reply 200, [])]) = Some (Inl e, w')"
      and f: "response e = Some ?r"
        "dispatched w' = dispatched signed_in @ [request_interceptor get_stores (localStorage signed_in)]"
        "localStorage w' = localStorage signed_in"
        "location_href w' = location_href signed_in"
        "timers w' = timers signed_in"
    using client_error_single_attempt [OF h, of get_stores signed_in "[]" "[(reply 200, [])]"] by blast
  have "length (dispatched w') = 1" using f(2) by (simp add: signed_in_def)
  moreover have "location_href w' = ''/dashboard''" using f(4) by (simp add: signed_in_def)
  moreover have "timers w' = []" using f(5) by (simp add: signed_in_def)
  ultimately show ?thesis using run f(1,3) by blast
qed

text \<open>
  C5. Whatever the outcome of the revocation request (it settles, which it does in
  particular when the transport answers four attempts), \<open>logout\<close> returns normally, and
  afterwards neither access token nor refresh token nor cached session is stored.
\<close>

theorem logout_clears_unconditionally:
  assumes "client (request ''post'' ''/auth/logout'' [] []) w sc \<noteq> None
           \<or> 4 \<le> length sc"
  shows "\<exists>w'. logout w sc = Some (Inr (), w')
           \<and> getToken w' = None \<and> getRefreshToken w' = None
           \<and> localStorage w' USER_KEY = None"
proof -
  have "client (request ''post'' ''/auth/logout'' [] []) w sc \<noteq> None"
  proof (cases "4 \<le> length sc")
    case True
    then have "MAX_RETRIES - retryCount_or_0 (request ''post'' ''/auth/logout'' [] []) < length sc"
      by (simp add: MAX_RETRIES_def)
    then show ?thesis by (rule client_settles)
  next
    case False
    then show ?thesis using assms by simp
  qed
  then obtain res' w1' where c: "client (request ''post'' ''/auth/logout'' [] []) w sc = Some (res', w1')"
    by auto
  show ?thesis
    using c clearAuth_absent by (cases res') (simp_all add: logout_def)
qed

theorem logout_clears_unconditionally_witness:
  "4 \<le> length [(reply 503, []), (reply 503, []), (reply 503, []), (reply 503, [])]
   \<and> (\<exists>w'. logout signed_in [(reply 503, []), (reply 503, []), (reply 503, []), (reply 503, [])] =
              Some (Inr (), w')
         \<and> getToken w' = None \<and> getRefreshToken w' = None
         \<and> localStorage w' USER_KEY = None)"
proof -
  let ?sc = "[(reply 503, []), (reply 503, []), (reply 503, []), (reply 503, [])] :: script"
  have h: "client (request ''post'' ''/auth/logout'' [] []) signed_in ?sc \<noteq> None
           \<or> 4 \<le> length ?sc"
    by simp
  show ?thesis
    using logout_clears_unconditionally [OF h] by simp
qed

text \<open>
  C6, as stated, fails: with an access token stored and no refresh token,
  \<open>refreshToken\<close> returns false and the access token is still there.
\<close>

theorem missing_refresh_token_keeps_store:
  "refreshToken access_only [] = Some (False, access_only)
   \<and> getRefreshToken access_only = None
   \<and> getToken access_only = Some ''T''"
  by (simp add: refreshToken_def getRefreshToken_def getToken_def access_only_def
        TOKEN_KEY_def REFRESH_TOKEN_KEY_def)

text \<open>
  C6, amended. When no refresh token is stored (the entry is missing or empty),
  \<open>refreshToken\<close> returns false at once: it sends no request and leaves the state,
  \<open>localStorage\<close> included, exactly as it was.
\<close>

theorem refresh_without_token:
  assumes "\<not> truthy (getRefreshToken w)"
  shows "refreshToken w sc = Some (False, w)"
  using assms by (simp add: refreshToken_def)

theorem refresh_without_token_witness:
  "\<not> truthy (getRefreshToken access_only)
   \<and> refreshToken access_only [(reply 200, [])] = Some (False, access_only)"
proof -
  have h: "\<not> truthy (getRefreshToken access_only)"
    by (simp add: getRefreshToken_def access_only_def REFRESH_TOKEN_KEY_def)
  show ?thesis using h refresh_without_token [OF h] by simp
qed



text \<open>
  C8. A retry issued while no access token is stored should carry no \<open>Authorization\<close>
  header of an earlier attempt; the code sends one. The interceptor runs before every
  attempt and reads the access token anew, but it only ever sets the header, and the
  retry is made from \<open>error.config\<close>, the configuration the failed attempt was sent with,
  header included. Here the first attempt is sent with token \<open>T\<close> and fails with 503;
  during the wait another writer removes the access token; the retry is dispatched with
  \<open>Bearer T\<close> all the same.
\<close>

theorem stale_authorization_on_retry:
  "client get_stores signed_in [(reply 503, [RemoveItem ''access_token'']), (reply 200, [])] \<noteq> None
   \<and> localStorage (snd (the (client get_stores signed_in
         [(reply 503, [RemoveItem ''access_token'']), (reply 200, [])]))) ''access_token'' = None
   \<and> map authorization (dispatched (snd (the (client get_stores signed_in
         [(reply 503, [RemoveItem ''access_token'']), (reply 200, [])])))) =
       [Some ''Bearer T'', Some ''Bearer T'']"
  by (simp add: model_defs example_defs)

text \<open>
  C9, as stated, fails: with the empty string stored as access token, the entry is
  present (\<open>getItem\<close> returns it) and \<open>isAuthenticated\<close> is false.
\<close>

theorem empty_token_not_authenticated:
  "localStorage empty_token ''access_token'' = Some '''' \<and> \<not> isAuthenticated empty_token"
  by (simp add: empty_token_def isAuthenticated_def getToken_def TOKEN_KEY_def)

text \<open>
  C9, amended. \<open>isAuthenticated\<close> is true exactly when a non-empty access token is
  stored; its result depends on that one entry of \<open>localStorage\<close> only, and, being a
  function from the state to a truth value, it changes nothing.
\<close>

theorem isAuthenticated_iff_nonempty_token:
  "(isAuthenticated w \<longleftrightarrow> (\<exists>t. localStorage w ''access_token'' = Some t \<and> t \<noteq> ''''))
   \<and> (localStorage w ''access_token'' = localStorage w' ''access_token'' \<longrightarrow>
        isAuthenticated w = isAuthenticated w')"
  by (cases "localStorage w ''access_token''")
     (auto simp: isAuthenticated_def getToken_def TOKEN_KEY_def)

theorem isAuthenticated_iff_nonempty_token_witness:
  "isAuthenticated signed_in \<and> isAuthenticated access_only \<and> \<not> isAuthenticated empty_token"
proof -
  have "\<exists>t. localStorage signed_in ''access_token'' = Some t \<and> t \<noteq> ''''"
    by (simp add: signed_in_def)
  then have a: "isAuthenticated signed_in"
    using isAuthenticated_iff_nonempty_token [of signed_in signed_in] by blast
  have "localStorage signed_in ''access_token'' = localStorage access_only ''access_token''"
    by (simp add: signed_in_def access_only_def)
  then have b: "isAuthenticated access_only"
    using a isAuthenticated_iff_nonempty_token [of signed_in access_only] by blast
  have "\<not> (\<exists>t. localStorage empty_token ''access_token'' = Some t \<and> t \<noteq> '''')"
    by (simp add: empty_token_def)
  then have "\<not> isAuthenticated empty_token"
    using isAuthenticated_iff_nonempty_token [of empty_token empty_token] by blast
  then show ?thesis using a b by simp
qed

text \<open>
  C10. An error without a request configuration is rejected as it is, whatever its
  response status (401 included): the state is returned unchanged, so no retry, no wait,
  no write to \<open>localStorage\<close> and no redirect happen.
\<close>

theorem no_config_rejects_untouched:
  assumes "config err = None"
  shows "response_error_interceptor err w = (Reject err, w)"
  using assms by (simp add: response_error_interceptor_def)

theorem no_config_rejects_untouched_witness:
  "config unauthorized_without_config = None
   \<and> map_option status (response unauthorized_without_config) = Some 401
   \<and> response_error_interceptor unauthorized_without_config signed_in =
       (Reject unauthorized_without_config, signed_in)"
proof -
  have h: "config unauthorized_without_config = None"
    by (simp add: unauthorized_without_config_def)
  moreover have "map_option status (response unauthorized_without_config) = Some 401"
    by (simp add: unauthorized_without_config_def)
  ultimately show ?thesis
    using no_config_rejects_untouched [OF h, of signed_in] by simp
qed

end
